theory Spec2Isabelle
  imports Complex_Main
begin

section \<open>Python values shared by the modules\<close>

text \<open>
  Python floats are modelled as exact rationals (\<open>rat\<close>): the constants of the source
  (\<open>0.05\<close>, \<open>0.9\<close>, \<open>0.30\<close>, ...) stand for their decimal values and arithmetic does not
  round. Python integers are \<open>int\<close>. An exception is a value: \<open>ExceptionOf\<close> is an
  instance of \<open>Exception\<close> (what \<open>except Exception\<close> catches), \<open>BaseExceptionOf\<close> one
  that is not (a cancellation, a keyboard interrupt).
\<close>

datatype py_exception = ExceptionOf string | BaseExceptionOf string

fun is_Exception :: "py_exception \<Rightarrow> bool" where
  "is_Exception (ExceptionOf _) = True"
| "is_Exception (BaseExceptionOf _) = False"

text \<open>Python's \<open>a / b\<close> on numbers: raises \<open>ZeroDivisionError\<close> when \<open>b\<close> is zero.\<close>

definition py_truediv :: "rat \<Rightarrow> rat \<Rightarrow> py_exception + rat" where
  "py_truediv a b = (if b = 0 then Inl (ExceptionOf ''ZeroDivisionError'') else Inr (a / b))"

section \<open>scoring/scorer.py\<close>

datatype ReplicabilityLevel = Rep_HIGH | Rep_MEDIUM | Rep_LOW | Rep_UNKNOWN

datatype ProductComplexity =
  SINGLE_FEATURE | SIMPLE_SAAS | COMPLEX_SAAS | PLATFORM | Complexity_UNKNOWN

record TrafficData =
  organic_percent :: rat
  paid_percent :: rat
  social_percent :: rat
  referral_percent :: rat
  direct_percent :: rat
  estimated_monthly_visits :: "int option"
  domain_authority :: "int option"
  top_keywords :: "string list"

text \<open>\<open>TrafficData.has_data\<close>: \<open>any\<close> of the four tests.\<close>

definition has_data :: "TrafficData \<Rightarrow> bool" where
  "has_data t =
     (organic_percent t > 0 \<or> paid_percent t > 0 \<or> social_percent t > 0 \<or>
      estimated_monthly_visits t \<noteq> None)"

record ScoringResult =
  total_score :: int
  traction_score :: int
  growth_score :: int
  traffic_score :: int
  simplicity_score :: int

text \<open>
  The fields of \<open>SaaSIdea\<close> that scoring and the replicability verdict read. The
  \<open>breakdown\<close> dictionary of \<open>ScoringResult\<close> holds formatted explanation strings only
  and is not part of the model.
\<close>

record SaaSIdea =
  idea_tweet_id :: string
  idea_tweet_text :: string
  author_username :: string
  author_followers :: int
  likes :: int
  retweets :: int
  replies :: int
  impressions :: int
  reported_mrr :: "rat option"
  revenue_confidence :: rat
  has_screenshot :: bool
  has_stripe_screenshot :: bool
  traffic :: TrafficData
  complexity :: ProductComplexity

text \<open>\<open>config.ScoringConfig\<close>: the thresholds are configuration, so they are parameters.\<close>

record ScoringConfig =
  mrr_high :: int
  mrr_medium :: int
  mrr_low :: int
  engagement_rate_threshold :: rat
  follower_threshold :: int
  organic_traffic_threshold :: rat

definition default_scoring :: ScoringConfig where
  "default_scoring =
     \<lparr>mrr_high = 10000, mrr_medium = 5000, mrr_low = 1000,
      engagement_rate_threshold = 5 / 100, follower_threshold = 5000,
      organic_traffic_threshold = 30 / 100\<rparr>"

text \<open>\<open>SaaSIdea.engagement_rate\<close>: the division is the only operation of scoring that can raise.\<close>

definition engagement_rate :: "SaaSIdea \<Rightarrow> py_exception + rat" where
  "engagement_rate idea =
     (if impressions idea = 0 then Inr 0
      else
        let total_engagement = likes idea + retweets idea + replies idea
        in py_truediv (of_int total_engagement) (of_int (impressions idea)))"

text \<open>\<open>idea.reported_mrr or 0\<close>: \<open>None\<close> and a zero are both falsy.\<close>

definition mrr_or_zero :: "rat option \<Rightarrow> rat" where
  "mrr_or_zero v = (case v of None \<Rightarrow> 0 | Some x \<Rightarrow> if x = 0 then 0 else x)"

definition score_traction :: "ScoringConfig \<Rightarrow> SaaSIdea \<Rightarrow> int" where
  "score_traction cfg idea =
     (let mrr = mrr_or_zero (reported_mrr idea);
          score =
            (if mrr \<ge> of_int (mrr_high cfg) then 30
             else if mrr \<ge> of_int (mrr_medium cfg) then 20
             else if mrr \<ge> of_int (mrr_low cfg) then 10
             else 0)
      in if revenue_confidence idea \<ge> 9 / 10 then min (score + 2) 30 else score)"

definition score_growth :: "ScoringConfig \<Rightarrow> SaaSIdea \<Rightarrow> py_exception + int" where
  "score_growth cfg idea =
     (let s1 = (if has_stripe_screenshot idea then 12
                else if has_screenshot idea then 10 else (0::int));
          eng_threshold = engagement_rate_threshold cfg
      in case engagement_rate idea of
           Inl e \<Rightarrow> Inl e
         | Inr rate \<Rightarrow>
             let s2 = s1 + (if rate > eng_threshold then 10
                            else if rate > eng_threshold / 2 then 5 else 0);
                 s3 = s2 + (if of_int (author_followers idea) \<ge> (of_int (follower_threshold cfg) :: rat) then 5
                            else if of_int (author_followers idea) \<ge> (of_int (follower_threshold cfg) :: rat) / 2 then 3
                            else 0)
             in Inr (min s3 25))"

definition score_traffic :: "ScoringConfig \<Rightarrow> SaaSIdea \<Rightarrow> int" where
  "score_traffic cfg idea =
     (if \<not> has_data (traffic idea) then 10
      else
        let t = traffic idea;
            organic_threshold = organic_traffic_threshold cfg;
            s1 = (if organic_percent t \<ge> organic_threshold then 15
                  else if organic_percent t \<ge> organic_threshold / 2 then 8 else (0::int));
            s2 = s1 + (if paid_percent t > 5 / 100 \<and> organic_percent t > 5 / 100 then 10 else 0)
        in min s2 25)"

definition score_simplicity :: "SaaSIdea \<Rightarrow> int" where
  "score_simplicity idea =
     (if complexity idea = SINGLE_FEATURE then 20
      else if complexity idea = SIMPLE_SAAS then 10
      else if complexity idea = COMPLEX_SAAS then 5
      else if complexity idea = PLATFORM then 0
      else 10)"

definition score_idea :: "ScoringConfig \<Rightarrow> SaaSIdea \<Rightarrow> py_exception + ScoringResult" where
  "score_idea cfg idea =
     (let traction = score_traction cfg idea
      in case score_growth cfg idea of
           Inl e \<Rightarrow> Inl e
         | Inr growth \<Rightarrow>
             let traffic_s = score_traffic cfg idea;
                 simplicity = score_simplicity idea;
                 total = traction + growth + traffic_s + simplicity
             in Inr \<lparr>total_score = total, traction_score = traction, growth_score = growth,
                     traffic_score = traffic_s, simplicity_score = simplicity\<rparr>)"

text \<open>
  \<open>IdeaScorer.determine_replicability\<close>, the verdict of the returned pair. The last
  test is \<open>idea.reported_mrr and idea.reported_mrr < 5000\<close>: a missing and a zero
  revenue are falsy.
\<close>

definition determine_replicability :: "SaaSIdea \<Rightarrow> ReplicabilityLevel" where
  "determine_replicability idea =
     (let t = traffic idea in
      if paid_percent t > 5 / 10 then Rep_HIGH
      else if paid_percent t > 2 / 10 \<and> organic_percent t > 2 / 10 then Rep_MEDIUM
      else if organic_percent t > 6 / 10 then Rep_LOW
      else if complexity idea = SINGLE_FEATURE then Rep_HIGH
      else if (case reported_mrr idea of None \<Rightarrow> False | Some v \<Rightarrow> v \<noteq> 0 \<and> v < 5000)
        then Rep_MEDIUM
      else Rep_UNKNOWN)"

text \<open>
  The decision list as the specification words it: an ordered list of rules, the first
  rule whose condition holds gives the verdict, \<open>UNKNOWN\<close> when none does.
\<close>

fun first_match :: "(('a \<Rightarrow> bool) \<times> 'b) list \<Rightarrow> 'b \<Rightarrow> 'a \<Rightarrow> 'b" where
  "first_match [] d x = d"
| "first_match ((c, v) # rs) d x = (if c x then v else first_match rs d x)"

definition revenue_below :: "rat \<Rightarrow> SaaSIdea \<Rightarrow> bool" where
  "revenue_below limit idea = (case reported_mrr idea of None \<Rightarrow> False | Some v \<Rightarrow> v < limit)"

definition revenue_nonzero :: "SaaSIdea \<Rightarrow> bool" where
  "revenue_nonzero idea = (case reported_mrr idea of None \<Rightarrow> False | Some v \<Rightarrow> v \<noteq> 0)"

definition replicability_rules_stated :: "((SaaSIdea \<Rightarrow> bool) \<times> ReplicabilityLevel) list" where
  "replicability_rules_stated =
     [(\<lambda>i. paid_percent (traffic i) > 50 / 100, Rep_HIGH),
      (\<lambda>i. paid_percent (traffic i) > 20 / 100 \<and> organic_percent (traffic i) > 20 / 100, Rep_MEDIUM),
      (\<lambda>i. organic_percent (traffic i) > 60 / 100, Rep_LOW),
      (\<lambda>i. complexity i = SINGLE_FEATURE, Rep_HIGH),
      (\<lambda>i. revenue_below 5000 i, Rep_MEDIUM)]"

definition replicability_rules_amended :: "((SaaSIdea \<Rightarrow> bool) \<times> ReplicabilityLevel) list" where
  "replicability_rules_amended =
     [(\<lambda>i. paid_percent (traffic i) > 50 / 100, Rep_HIGH),
      (\<lambda>i. paid_percent (traffic i) > 20 / 100 \<and> organic_percent (traffic i) > 20 / 100, Rep_MEDIUM),
      (\<lambda>i. organic_percent (traffic i) > 60 / 100, Rep_LOW),
      (\<lambda>i. complexity i = SINGLE_FEATURE, Rep_HIGH),
      (\<lambda>i. revenue_nonzero i \<and> revenue_below 5000 i, Rep_MEDIUM)]"

text \<open>Concrete inputs used below.\<close>

definition no_traffic :: TrafficData where
  "no_traffic =
     \<lparr>organic_percent = 0, paid_percent = 0, social_percent = 0, referral_percent = 0,
      direct_percent = 0, estimated_monthly_visits = None, domain_authority = None,
      top_keywords = []\<rparr>"

definition plain_idea :: SaaSIdea where
  "plain_idea =
     \<lparr>idea_tweet_id = ''1'', idea_tweet_text = ''hit $10K MRR'', author_username = ''maker'',
      author_followers = 6000, likes = 40, retweets = 5, replies = 5, impressions = 0,
      reported_mrr = Some 10000, revenue_confidence = 95 / 100,
      has_screenshot = True, has_stripe_screenshot = False,
      traffic = no_traffic, complexity = Complexity_UNKNOWN\<rparr>"

definition referral_idea :: SaaSIdea where
  "referral_idea =
     plain_idea\<lparr>traffic := no_traffic\<lparr>referral_percent := 40 / 100, direct_percent := 60 / 100\<rparr>\<rparr>"

section \<open>twitter/scrapers/scraper_manager.py\<close>

text \<open>The fields of \<open>Tweet\<close> that the manager and the extractors read.\<close>

record Tweet =
  tweet_id :: string
  tweet_text :: string
  tweet_urls :: "string list"
  tweet_source :: "string option"

text \<open>
  An asynchronous generator consumed to its end is the list of the items it yielded, in
  order, and the way it ended: it returned, or an exception left it.
\<close>

datatype ending = Returned | Raised py_exception

text \<open>
  A backend adapter (\<open>BaseScraper\<close>): its name and the stream its \<open>search\<close> produces
  for a query, a limit and the optional dates. The adapters are arbitrary: the theorems
  below hold for every such answer.
\<close>

record scraper =
  scraper_name :: string
  scraper_search :: "string \<Rightarrow> int \<Rightarrow> string option \<Rightarrow> string option \<Rightarrow> Tweet list \<times> ending"

text \<open>
  The three clients the manager constructs are external: each is given by the adapter
  it creates and by what creating it and awaiting its \<open>initialize()\<close> does.
\<close>

datatype init_result = Init_True | Init_False | Init_Raised py_exception

record backend =
  backend_scraper :: scraper
  backend_init :: init_result

record backends =
  twscrape :: backend
  apify :: backend
  scweet :: backend

record ScraperManager =
  enable_scweet :: bool
  scrapers :: "scraper list"
  active_scraper :: "string option"
  initialized :: bool

text \<open>
  The loop of \<open>initialize\<close>: an adapter whose \<open>initialize()\<close> is true is appended; a
  false result or an \<open>Exception\<close> is logged and skipped; an exception that is not an
  \<open>Exception\<close> leaves the loop.
\<close>

fun init_loop :: "(string \<times> backend) list \<Rightarrow> scraper list \<Rightarrow> py_exception option \<times> scraper list" where
  "init_loop [] acc = (None, acc)"
| "init_loop ((name, b) # rest) acc =
     (case backend_init b of
        Init_True \<Rightarrow> init_loop rest (acc @ [backend_scraper b])
      | Init_False \<Rightarrow> init_loop rest acc
      | Init_Raised e \<Rightarrow> if is_Exception e then init_loop rest acc else (Some e, acc))"

definition initialize :: "ScraperManager \<Rightarrow> backends \<Rightarrow> (py_exception + bool) \<times> ScraperManager" where
  "initialize m env =
     (let scrapers_to_try =
            [(''twscrape'', twscrape env), (''apify'', apify env)] @
            (if enable_scweet m then [(''scweet'', scweet env)] else [])
      in case init_loop scrapers_to_try (scrapers m) of
           (Some e, scs) \<Rightarrow> (Inl e, m\<lparr>scrapers := scs\<rparr>)
         | (None, scs) \<Rightarrow>
             (case scs of
                [] \<Rightarrow> (Inr False, m\<lparr>scrapers := scs\<rparr>)
              | s # _ \<Rightarrow>
                  (Inr True,
                   m\<lparr>scrapers := scs, active_scraper := Some (scraper_name s), initialized := True\<rparr>)))"

text \<open>
  The loop of \<open>search\<close> over \<open>self.scrapers\<close>. The \<open>try\<close> encloses the whole
  \<open>async for\<close>, the \<open>yield\<close> included: the items an adapter yielded before it raised
  have already gone to the caller, the \<open>Exception\<close> is caught, stored in \<open>last_error\<close>
  and the loop continues with the next adapter. After the loop the last error, if any,
  is raised.
\<close>

fun search_loop ::
  "scraper list \<Rightarrow> string \<Rightarrow> int \<Rightarrow> string option \<Rightarrow> string option \<Rightarrow>
   py_exception option \<Rightarrow> ScraperManager \<Rightarrow> (Tweet list \<times> ending) \<times> ScraperManager" where
  "search_loop [] query limit since until last_error m =
     (([], case last_error of None \<Rightarrow> Returned | Some e \<Rightarrow> Raised e), m)"
| "search_loop (s # ss) query limit since until last_error m =
     (case scraper_search s query limit since until of
        (ts, Returned) \<Rightarrow> ((ts, Returned), m\<lparr>active_scraper := Some (scraper_name s)\<rparr>)
      | (ts, Raised e) \<Rightarrow>
          if is_Exception e then
            (case search_loop ss query limit since until (Some e) m of
               ((ys, en), m') \<Rightarrow> ((ts @ ys, en), m'))
          else ((ts, Raised e), m))"

definition search ::
  "ScraperManager \<Rightarrow> backends \<Rightarrow> string \<Rightarrow> int \<Rightarrow> string option \<Rightarrow> string option \<Rightarrow>
   (Tweet list \<times> ending) \<times> ScraperManager" where
  "search m env query limit since until =
     (if \<not> initialized m then
        (case initialize m env of
           (Inl e, m') \<Rightarrow> (([], Raised e), m')
         | (Inr ok, m') \<Rightarrow>
             if \<not> ok then (([], Returned), m')
             else search_loop (scrapers m') query limit since until None m')
      else search_loop (scrapers m) query limit since until None m)"

text \<open>
  The inner loop of \<open>search_multiple_queries\<close> over the tweets of one query, with the
  set \<open>seen_ids\<close> passed through.
\<close>

fun dedup_pass :: "bool \<Rightarrow> Tweet list \<Rightarrow> string set \<Rightarrow> Tweet list \<times> string set" where
  "dedup_pass deduplicate [] seen_ids = ([], seen_ids)"
| "dedup_pass deduplicate (t # ts) seen_ids =
     (if deduplicate then
        (if tweet_id t \<notin> seen_ids then
           (case dedup_pass deduplicate ts (insert (tweet_id t) seen_ids) of
              (ys, seen') \<Rightarrow> (t # ys, seen'))
         else dedup_pass deduplicate ts seen_ids)
      else
        (case dedup_pass deduplicate ts seen_ids of (ys, seen') \<Rightarrow> (t # ys, seen')))"

text \<open>
  The outer loop: one \<open>search\<close> per query; an \<open>Exception\<close> of a query is logged and the
  loop continues with the next query.
\<close>

fun queries_loop ::
  "ScraperManager \<Rightarrow> backends \<Rightarrow> string list \<Rightarrow> int \<Rightarrow> bool \<Rightarrow> string set \<Rightarrow>
   (Tweet list \<times> ending) \<times> ScraperManager" where
  "queries_loop m env [] limit_per_query deduplicate seen_ids = (([], Returned), m)"
| "queries_loop m env (query # queries) limit_per_query deduplicate seen_ids =
     (case search m env query limit_per_query None None of
        ((ts, en), m') \<Rightarrow>
          (case dedup_pass deduplicate ts seen_ids of
             (ys, seen') \<Rightarrow>
               if (case en of Returned \<Rightarrow> True | Raised e \<Rightarrow> is_Exception e) then
                 (case queries_loop m' env queries limit_per_query deduplicate seen' of
                    ((zs, en'), m'') \<Rightarrow> ((ys @ zs, en'), m''))
               else ((ys, en), m')))"

definition search_multiple_queries ::
  "ScraperManager \<Rightarrow> backends \<Rightarrow> string list \<Rightarrow> int \<Rightarrow> bool \<Rightarrow>
   (Tweet list \<times> ending) \<times> ScraperManager" where
  "search_multiple_queries m env queries limit_per_query deduplicate =
     queries_loop m env queries limit_per_query deduplicate {}"

text \<open>The posts a call yields, and how the call ends.\<close>

definition yielded :: "(Tweet list \<times> ending) \<times> ScraperManager \<Rightarrow> Tweet list" where
  "yielded r = fst (fst r)"

definition outcome :: "(Tweet list \<times> ending) \<times> ScraperManager \<Rightarrow> ending" where
  "outcome r = snd (fst r)"

text \<open>Concrete adapters: one that yields a post and then fails, one that succeeds.\<close>

definition tweet1 :: Tweet where
  "tweet1 = \<lparr>tweet_id = ''1'', tweet_text = ''hit $10K MRR'', tweet_urls = [], tweet_source = Some ''twscrape''\<rparr>"

definition tweet2 :: Tweet where
  "tweet2 = \<lparr>tweet_id = ''2'', tweet_text = ''$5K MRR'', tweet_urls = [], tweet_source = Some ''scweet''\<rparr>"

definition tweet3 :: Tweet where
  "tweet3 = \<lparr>tweet_id = ''3'', tweet_text = ''$120K ARR'', tweet_urls = [], tweet_source = Some ''apify''\<rparr>"

definition tweet1_again :: Tweet where
  "tweet1_again = \<lparr>tweet_id = ''1'', tweet_text = ''hit $10K MRR'', tweet_urls = [], tweet_source = Some ''scweet''\<rparr>"

definition failing_scraper :: scraper where
  "failing_scraper =
     \<lparr>scraper_name = ''twscrape'',
      scraper_search = (\<lambda>query limit since until. ([tweet1], Raised (ExceptionOf ''rate limited'')))\<rparr>"

definition timing_out_scraper :: scraper where
  "timing_out_scraper =
     \<lparr>scraper_name = ''apify'',
      scraper_search = (\<lambda>query limit since until. ([tweet3], Raised (ExceptionOf ''timeout'')))\<rparr>"

definition working_scraper :: scraper where
  "working_scraper =
     \<lparr>scraper_name = ''scweet'',
      scraper_search = (\<lambda>query limit since until. ([tweet1_again, tweet2], Returned))\<rparr>"

definition two_scrapers :: ScraperManager where
  "two_scrapers =
     \<lparr>enable_scweet = True, scrapers = [failing_scraper, working_scraper],
      active_scraper = Some ''twscrape'', initialized = True\<rparr>"

definition three_scrapers :: ScraperManager where
  "three_scrapers =
     \<lparr>enable_scweet = True, scrapers = [failing_scraper, timing_out_scraper, working_scraper],
      active_scraper = Some ''twscrape'', initialized = True\<rparr>"

definition no_backends :: backends where
  "no_backends =
     \<lparr>twscrape = \<lparr>backend_scraper = failing_scraper, backend_init = Init_False\<rparr>,
      apify = \<lparr>backend_scraper = timing_out_scraper, backend_init = Init_False\<rparr>,
      scweet = \<lparr>backend_scraper = working_scraper, backend_init = Init_False\<rparr>\<rparr>"

section \<open>Strings and numbers of the Python library\<close>

text \<open>
  A text is a string of 8-bit characters; the library functions below are exact on
  ASCII text. Characters outside ASCII have no case, are no digits, no whitespace and
  no word characters here.
\<close>

definition ascii_upper :: string where
  "ascii_upper = ''ABCDEFGHIJKLMNOPQRSTUVWXYZ''"

definition ascii_lower :: string where
  "ascii_lower = ''abcdefghijklmnopqrstuvwxyz''"

definition digit_chars :: string where
  "digit_chars = ''0123456789''"

definition lower_char :: "char \<Rightarrow> char" where
  "lower_char c = (case map_of (zip ascii_upper ascii_lower) c of Some d \<Rightarrow> d | None \<Rightarrow> c)"

definition upper_char :: "char \<Rightarrow> char" where
  "upper_char c = (case map_of (zip ascii_lower ascii_upper) c of Some d \<Rightarrow> d | None \<Rightarrow> c)"

text \<open>\<open>str.lower()\<close> and \<open>str.upper()\<close>.\<close>

definition lower :: "string \<Rightarrow> string" where
  "lower s = map lower_char s"

definition upper :: "string \<Rightarrow> string" where
  "upper s = map upper_char s"

text \<open>\<open>s.startswith(p)\<close> and \<open>p in s\<close> on strings.\<close>

fun startswith :: "string \<Rightarrow> string \<Rightarrow> bool" where
  "startswith s [] = True"
| "startswith [] (p # ps) = False"
| "startswith (c # cs) (p # ps) = (c = p \<and> startswith cs ps)"

fun is_substr :: "string \<Rightarrow> string \<Rightarrow> bool" where
  "is_substr p [] = (p = [])"
| "is_substr p (c # cs) = (startswith (c # cs) p \<or> is_substr p cs)"

definition endswith :: "string \<Rightarrow> string \<Rightarrow> bool" where
  "endswith s p = startswith (rev s) (rev p)"

text \<open>\<open>s.replace(',', '')\<close>.\<close>

definition remove_commas :: "string \<Rightarrow> string" where
  "remove_commas s = filter (\<lambda>c. c \<noteq> CHR '','') s"

text \<open>The value of a string of decimal digits, most significant first.\<close>

definition digit_value :: "char \<Rightarrow> nat" where
  "digit_value c = (case map_of (zip digit_chars [0..<10]) c of Some d \<Rightarrow> d | None \<Rightarrow> 0)"

definition digits_value :: "string \<Rightarrow> nat" where
  "digits_value s = foldl (\<lambda>acc c. 10 * acc + digit_value c) 0 s"

definition all_digits :: "string \<Rightarrow> bool" where
  "all_digits s = list_all (\<lambda>c. c \<in> set digit_chars) s"

text \<open>
  \<open>float(s)\<close> on the strings the patterns capture, digits with at most one dot and at
  least one digit: the decimal value; \<open>None\<close> stands for the \<open>ValueError\<close> of the other
  strings of that alphabet (the empty string, a lone dot, two dots). The further
  spellings \<open>float\<close> accepts (signs, exponents, underscores, blanks, \<open>inf\<close>, \<open>nan\<close>)
  contain a character that no capture group of the patterns admits.
\<close>

definition py_float :: "string \<Rightarrow> rat option" where
  "py_float s =
     (let ip = takeWhile (\<lambda>c. c \<noteq> CHR ''.'') s;
          fp = drop (Suc (length ip)) s
      in if all_digits ip \<and> all_digits fp \<and> ip @ fp \<noteq> []
         then Some (of_nat (digits_value ip) + of_nat (digits_value fp) / 10 ^ length fp)
         else None)"

text \<open>\<open>int(s)\<close> on a string of digits; \<open>None\<close> is the \<open>ValueError\<close>.\<close>

definition py_int_of_str :: "string \<Rightarrow> int option" where
  "py_int_of_str s = (if s \<noteq> [] \<and> all_digits s then Some (int (digits_value s)) else None)"

text \<open>\<open>int(x)\<close> on a float: truncation towards zero.\<close>

definition py_int :: "rat \<Rightarrow> int" where
  "py_int x = (if x < 0 then - \<lfloor>- x\<rfloor> else \<lfloor>x\<rfloor>)"

section \<open>Regular expressions: the fragment of \<open>re\<close> that the patterns use\<close>

text \<open>
  The patterns are written as syntax trees. Matching is Python's backtracking search:
  \<open>rmatch\<close> lists the ways a pattern can match at a position in the order the engine
  tries them (greedy repetition first takes one more iteration; an alternative tries
  its left branch first), so the first element is the match the engine returns.
\<close>

datatype regex =
    Lit char
  | Cls "char list"
  | NCls "char list"
  | Seq regex regex
  | Alt regex regex
  | Star regex
  | Opt regex
  | Grp nat regex
  | WordB
  | Eps

record mstate =
  ms_before :: string
  ms_rest :: string
  ms_caps :: "(nat \<times> string) list"

text \<open>The whitespace class on ASCII: blank, tab, newline, vertical tab, form feed, return and the four separators.\<close>

definition whitespace :: "char list" where
  "whitespace =
     [CHR 0x20, CHR 0x09, CHR 0x0A, CHR 0x0B, CHR 0x0C, CHR 0x0D, CHR 0x1C, CHR 0x1D, CHR 0x1E, CHR 0x1F]"

definition is_word :: "char \<Rightarrow> bool" where
  "is_word c = (c \<in> set (ascii_lower @ ascii_upper @ digit_chars @ ''_''))"

definition ch_eq :: "bool \<Rightarrow> char \<Rightarrow> char \<Rightarrow> bool" where
  "ch_eq ic c d = (if ic then lower_char c = lower_char d else c = d)"

text \<open>Under \<open>re.IGNORECASE\<close> a class holds a character when it holds one of its two cases.\<close>

definition in_class :: "bool \<Rightarrow> char list \<Rightarrow> char \<Rightarrow> bool" where
  "in_class ic cs d =
     (d \<in> set cs \<or> (ic \<and> (lower_char d \<in> set cs \<or> upper_char d \<in> set cs)))"

definition step_if :: "(char \<Rightarrow> bool) \<Rightarrow> mstate \<Rightarrow> mstate list" where
  "step_if P s =
     (case ms_rest s of
        [] \<Rightarrow> []
      | d # ds \<Rightarrow> if P d then [s\<lparr>ms_before := d # ms_before s, ms_rest := ds\<rparr>] else [])"

definition at_boundary :: "mstate \<Rightarrow> bool" where
  "at_boundary s =
     ((case ms_before s of [] \<Rightarrow> False | c # _ \<Rightarrow> is_word c) \<noteq>
      (case ms_rest s of [] \<Rightarrow> False | c # _ \<Rightarrow> is_word c))"

definition set_group :: "nat \<Rightarrow> mstate \<Rightarrow> mstate \<Rightarrow> mstate" where
  "set_group n s s' =
     s'\<lparr>ms_caps := (n, take (length (ms_rest s) - length (ms_rest s')) (ms_rest s)) # ms_caps s'\<rparr>"

text \<open>
  Greedy repetition. Every iteration consumes a character (the engine ends a repetition
  whose body matched the empty string), so the number of iterations is bounded by the
  length of the remaining text, which is the fuel given by \<open>rmatch\<close>.
\<close>

fun star_iter :: "nat \<Rightarrow> (mstate \<Rightarrow> mstate list) \<Rightarrow> mstate \<Rightarrow> mstate list" where
  "star_iter 0 f s = [s]"
| "star_iter (Suc n) f s =
     concat (map (star_iter n f)
       (filter (\<lambda>s'. length (ms_rest s') < length (ms_rest s)) (f s))) @ [s]"

fun rmatch :: "bool \<Rightarrow> regex \<Rightarrow> mstate \<Rightarrow> mstate list" where
  "rmatch ic (Lit c) s = step_if (ch_eq ic c) s"
| "rmatch ic (Cls cs) s = step_if (in_class ic cs) s"
| "rmatch ic (NCls cs) s = step_if (\<lambda>d. \<not> in_class ic cs d) s"
| "rmatch ic (Seq a b) s = concat (map (rmatch ic b) (rmatch ic a s))"
| "rmatch ic (Alt a b) s = rmatch ic a s @ rmatch ic b s"
| "rmatch ic (Star a) s = star_iter (length (ms_rest s)) (rmatch ic a) s"
| "rmatch ic (Opt a) s = rmatch ic a s @ [s]"
| "rmatch ic (Grp n a) s = map (set_group n s) (rmatch ic a s)"
| "rmatch ic WordB s = (if at_boundary s then [s] else [])"
| "rmatch ic Eps s = [s]"

fun ngroups :: "regex \<Rightarrow> nat" where
  "ngroups (Seq a b) = max (ngroups a) (ngroups b)"
| "ngroups (Alt a b) = max (ngroups a) (ngroups b)"
| "ngroups (Star a) = ngroups a"
| "ngroups (Opt a) = ngroups a"
| "ngroups (Grp n a) = max n (ngroups a)"
| "ngroups r = 0"

text \<open>
  A match object: \<open>group(0)\<close> and the tuple \<open>groups()\<close>, where a group that took no part
  in the match is \<open>None\<close>.
\<close>

record re_match =
  group0 :: string
  groups :: "string option list"

definition mk_match :: "regex \<Rightarrow> string \<Rightarrow> mstate \<Rightarrow> re_match" where
  "mk_match r txt s' =
     \<lparr>group0 = take (length txt - length (ms_rest s')) txt,
      groups = map (\<lambda>i. map_of (ms_caps s') i) [1..<Suc (ngroups r)]\<rparr>"

text \<open>
  \<open>re.finditer\<close>: the non-overlapping matches from left to right. After a match the
  search resumes at its end (one character further after an empty match; no pattern of
  the source matches the empty string).
\<close>

function scan :: "bool \<Rightarrow> regex \<Rightarrow> string \<Rightarrow> string \<Rightarrow> re_match list" where
  "scan ic r bef txt =
     (case rmatch ic r \<lparr>ms_before = bef, ms_rest = txt, ms_caps = []\<rparr> of
        [] \<Rightarrow> (case txt of [] \<Rightarrow> [] | c # cs \<Rightarrow> scan ic r (c # bef) cs)
      | s' # _ \<Rightarrow>
          mk_match r txt s' #
          (if length txt - length (ms_rest s') = 0
           then (case txt of [] \<Rightarrow> [] | c # cs \<Rightarrow> scan ic r (c # bef) cs)
           else scan ic r (rev (take (length txt - length (ms_rest s')) txt) @ bef)
                  (drop (length txt - length (ms_rest s')) txt)))"
  by pat_completeness auto
termination
  by (relation "measure (\<lambda>(ic, r, bef, txt). length txt)") auto

definition finditer :: "regex \<Rightarrow> string \<Rightarrow> bool \<Rightarrow> re_match list" where
  "finditer pattern text ignorecase = scan ignorecase pattern [] text"

text \<open>Writing patterns: a literal word, a sequence, a choice, \<open>r+\<close>.\<close>

fun seqs :: "regex list \<Rightarrow> regex" where
  "seqs [] = Eps"
| "seqs [r] = r"
| "seqs (r # rs) = Seq r (seqs rs)"

fun alts :: "regex list \<Rightarrow> regex" where
  "alts [] = Cls []"
| "alts [r] = r"
| "alts (r # rs) = Alt r (alts rs)"

definition lit_word :: "string \<Rightarrow> regex" where
  "lit_word w = seqs (map Lit w)"

definition Rep1 :: "regex \<Rightarrow> regex" where
  "Rep1 r = Seq r (Star r)"

definition ws :: regex where
  "ws = Star (Cls whitespace)"

definition ws1 :: regex where
  "ws1 = Rep1 (Cls whitespace)"

definition digit :: regex where
  "digit = Cls digit_chars"
section \<open>extractors/revenue.py\<close>

text \<open>
  \<open>RevenueExtractor.extract\<close> and \<open>extract_all\<close> are \<open>extract_revenue\<close> and
  \<open>extract_all_revenue\<close> here.
\<close>

text \<open>\<open>twitter.models.RevenueType\<close> and \<open>ExtractedRevenue\<close>.\<close>

datatype RevenueType = MRR | ARR | MONTHLY | UNKNOWN

record ExtractedRevenue =
  raw_match :: string
  amount :: int
  revenue_type :: RevenueType
  confidence :: rat
  er_has_screenshot :: bool

text \<open>The number of the patterns, \<open>[\d,]+\.?\d*\<close>, and their common beginning.\<close>

definition number_rx :: regex where
  "number_rx = seqs [Rep1 (Cls (digit_chars @ '','')), Opt (Lit CHR ''.''), Star digit]"

definition dollar_amount :: "regex list" where
  "dollar_amount = [Lit CHR ''$'', ws, Grp 1 number_rx, ws, Opt (Grp 2 (Cls ''kK''))]"

definition PATTERNS :: "(regex \<times> RevenueType \<times> rat) list" where
  "PATTERNS =
     [(seqs (dollar_amount @ [ws, Grp 3 (alts [lit_word ''MRR'', lit_word ''mrr''])]), MRR, 95 / 100),
      (seqs (dollar_amount @ [ws, Grp 3 (alts [lit_word ''ARR'', lit_word ''arr''])]), ARR, 95 / 100),
      (seqs (dollar_amount @
         [ws, alts [lit_word ''/month'', seqs [lit_word ''per'', ws, lit_word ''month''],
                    lit_word ''monthly'', seqs [lit_word ''/mo'', WordB]]]), MONTHLY, 90 / 100),
      (seqs ([alts [lit_word ''making'', lit_word ''hit'', lit_word ''crossed'', lit_word ''reached'',
                    lit_word ''at''], ws] @ dollar_amount), UNKNOWN, 75 / 100),
      (seqs [Grp 1 number_rx, ws, Grp 2 (Cls ''kK''), ws,
             alts [lit_word ''MRR'', seqs [lit_word ''in'', ws, lit_word ''revenue''],
                   lit_word ''revenue'']], MRR, 80 / 100),
      (seqs (dollar_amount @
         [ws, Opt (seqs [lit_word ''in'', ws]), Opt (seqs [lit_word ''monthly'', ws]),
          lit_word ''revenue'']), MONTHLY, 85 / 100),
      (seqs [Grp 1 (Cls ''4567''), ws, lit_word ''figure'', ws,
             Grp 2 (alts [lit_word ''MRR'', lit_word ''ARR'', lit_word ''revenue''])], UNKNOWN, 70 / 100),
      (seqs ([alts [seqs [lit_word ''just'', ws, lit_word ''passed''],
                    seqs [lit_word ''now'', ws, lit_word ''at''],
                    seqs [lit_word ''currently'', ws, lit_word ''at'']], ws] @ dollar_amount),
       UNKNOWN, 70 / 100),
      (seqs ([alts [seqs [lit_word ''growing'', ws, lit_word ''to''],
                    seqs [lit_word ''scaled'', ws, lit_word ''to''],
                    seqs [lit_word ''grew'', ws, lit_word ''to'']], ws] @ dollar_amount @
             [ws, Opt (lit_word ''MRR'')]), MRR, 75 / 100),
      (seqs (dollar_amount @ [ws, lit_word ''/mo'', WordB]), MONTHLY, 85 / 100),
      (seqs ([alts [lit_word ''revenue'', lit_word ''mrr'', lit_word ''arr''], ws, Lit CHR '':'', ws] @
             dollar_amount), MRR, 90 / 100),
      (seqs ([lit_word ''from'', ws, lit_word ''$0'', ws, lit_word ''to'', ws] @ dollar_amount),
       UNKNOWN, 70 / 100)]"

text \<open>\<open>FIGURE_ESTIMATES.get(figure, 0)\<close>.\<close>

definition figure_estimate :: "string option \<Rightarrow> int" where
  "figure_estimate figure =
     (if figure = Some ''4'' then 5000
      else if figure = Some ''5'' then 50000
      else if figure = Some ''6'' then 500000
      else if figure = Some ''7'' then 5000000
      else 0)"

text \<open>
  The six last keywords of the source are written there as the characters
  \<open>U+00F0 U+0178 ...\<close>; they are given by their UTF-8 bytes.
\<close>

definition SCREENSHOT_KEYWORDS :: "string list" where
  "SCREENSHOT_KEYWORDS =
     [''screenshot'', ''proof'', ''stripe'', ''dashboard'',
      ''pic'', ''image'', ''attached'', ''below'', ''stats'',
      [CHR 0xC3, CHR 0xB0, CHR 0xC5, CHR 0xB8, CHR 0xE2, CHR 0x80, CHR 0x98, CHR 0xE2, CHR 0x80, CHR 0xA1],
      [CHR 0xC3, CHR 0xB0, CHR 0xC5, CHR 0xB8, CHR 0xE2, CHR 0x80, CHR 0x9C, CHR 0xC5, CHR 0xA0],
      [CHR 0xC3, CHR 0xB0, CHR 0xC5, CHR 0xB8, CHR 0xE2, CHR 0x80, CHR 0x9C, CHR 0xCB, CHR 0x86],
      [CHR 0xC3, CHR 0xB0, CHR 0xC5, CHR 0xB8, CHR 0xE2, CHR 0x80, CHR 0x99, CHR 0xC2, CHR 0xB0],
      [CHR 0xC3, CHR 0xB0, CHR 0xC5, CHR 0xB8, CHR 0xC5, CHR 0xA1, CHR 0xE2, CHR 0x82, CHR 0xAC],
      [CHR 0xC3, CHR 0xB0, CHR 0xC5, CHR 0xB8, CHR 0xE2, CHR 0x80, CHR 0x99, CHR 0xC2, CHR 0xB5]]"

definition check_screenshot_indicators :: "string \<Rightarrow> bool" where
  "check_screenshot_indicators text =
     (let text_lower = lower text in list_ex (\<lambda>kw. is_substr kw text_lower) SCREENSHOT_KEYWORDS)"

text \<open>
  \<open>_parse_match\<close>. \<open>groups[0]\<close> raises \<open>IndexError\<close> on an empty tuple and
  \<open>.replace\<close> raises \<open>AttributeError\<close> on \<open>None\<close>; the result is the pair of the
  amount (or \<open>None\<close>) and the confidence.
\<close>

definition parse_match :: "re_match \<Rightarrow> rat \<Rightarrow> py_exception + (int option \<times> rat)" where
  "parse_match m base_confidence =
     (if is_substr ''figure'' (lower (group0 m)) then
        (case groups m of
           [] \<Rightarrow> Inl (ExceptionOf ''IndexError'')
         | figure # _ \<Rightarrow> Inr (Some (figure_estimate figure), base_confidence))
      else
        (case groups m of
           [] \<Rightarrow> Inl (ExceptionOf ''IndexError'')
         | None # _ \<Rightarrow> Inl (ExceptionOf ''AttributeError'')
         | Some g # gs \<Rightarrow>
             (case py_float (remove_commas g) of
                None \<Rightarrow> Inr (None, 0)
              | Some a0 \<Rightarrow>
                  let k_multiplier = (case gs of [] \<Rightarrow> None | k # _ \<Rightarrow> k);
                      a = (if (case k_multiplier of None \<Rightarrow> False
                               | Some k \<Rightarrow> k \<noteq> [] \<and> lower k = ''k'')
                           then a0 * 1000 else a0)
                  in if a \<le> 0 then Inr (None, 0)
                     else if a > 100000000 then Inr (None, 0)
                     else Inr (Some (py_int a), base_confidence))))"

text \<open>
  The matches of all patterns in the order the nested iteration visits them, each with
  the kind and the base confidence of its pattern.
\<close>

definition all_matches :: "string \<Rightarrow> (re_match \<times> RevenueType \<times> rat) list" where
  "all_matches text =
     concat (map (\<lambda>(pattern, revenue_type, base_confidence).
                    map (\<lambda>m. (m, revenue_type, base_confidence)) (finditer pattern text True))
                 PATTERNS)"

text \<open>
  One iteration of the inner loop of \<open>extract\<close> on the state \<open>(best_match,
  best_confidence)\<close>. Every exception of the body is caught and the loop continues.
\<close>

definition extract_step ::
  "string \<Rightarrow> ExtractedRevenue option \<times> rat \<Rightarrow> re_match \<times> RevenueType \<times> rat \<Rightarrow>
   ExtractedRevenue option \<times> rat" where
  "extract_step text best mt =
     (case mt of (m, rtype, base_confidence) \<Rightarrow>
        (case parse_match m base_confidence of
           Inl e \<Rightarrow> best
         | Inr (None, c) \<Rightarrow> best
         | Inr (Some a, c) \<Rightarrow>
             if a \<le> 0 then best
             else
               let has_shot = check_screenshot_indicators text;
                   c' = (if has_shot then min (c + 1 / 10) 1 else c)
               in if c' > snd best
                  then (Some \<lparr>raw_match = group0 m, amount = a, revenue_type = rtype,
                               confidence = c', er_has_screenshot = has_shot\<rparr>, c')
                  else best))"

definition extract_revenue :: "string \<Rightarrow> ExtractedRevenue option" where
  "extract_revenue text =
     (if text = [] then None
      else fst (foldl (extract_step text) (None, 0) (all_matches text)))"



definition is_revenue_tweet :: "string \<Rightarrow> rat \<Rightarrow> bool" where
  "is_revenue_tweet text min_confidence =
     (case extract_revenue text of None \<Rightarrow> False | Some r \<Rightarrow> confidence r \<ge> min_confidence)"
section \<open>parsers/mrr.py\<close>

text \<open>\<open>parsers.mrr.RevenueType\<close> (it has a member more than the one of the models) and \<open>RevenueData\<close>.\<close>

datatype RevenueKind = Rd_MRR | Rd_ARR | Rd_MONTHLY | Rd_REVENUE | Rd_UNKNOWN

record RevenueData =
  rd_amount :: rat
  rd_type :: RevenueKind
  raw_text :: string
  rd_confidence :: rat

definition monthly_equivalent :: "RevenueData \<Rightarrow> rat" where
  "monthly_equivalent r = (if rd_type r = Rd_ARR then rd_amount r / 12 else rd_amount r)"

definition bind_exc :: "'e + 'a \<Rightarrow> ('a \<Rightarrow> 'e + 'b) \<Rightarrow> 'e + 'b" where
  "bind_exc x f = (case x of Inl e \<Rightarrow> Inl e | Inr v \<Rightarrow> f v)"

text \<open>
  \<open>match.group(i)\<close>: \<open>IndexError\<close> when the pattern has no such group, \<open>None\<close> when the
  group took no part in the match. A string method on \<open>None\<close> raises \<open>AttributeError\<close>.
\<close>

definition group :: "re_match \<Rightarrow> nat \<Rightarrow> py_exception + string option" where
  "group m i =
     (if i = 0 then Inr (Some (group0 m))
      else if i \<le> length (groups m) then Inr (groups m ! (i - 1))
      else Inl (ExceptionOf ''IndexError''))"

definition group_str :: "re_match \<Rightarrow> nat \<Rightarrow> py_exception + string" where
  "group_str m i =
     bind_exc (group m i)
       (\<lambda>g. case g of None \<Rightarrow> Inl (ExceptionOf ''AttributeError'') | Some s \<Rightarrow> Inr s)"

text \<open>The number of this parser's patterns, \<open>[\d,]+(?:\.\d+)?\<close>.\<close>

definition number_rx2 :: regex where
  "number_rx2 = seqs [Rep1 (Cls (digit_chars @ '','')), Opt (seqs [Lit CHR ''.'', Rep1 digit])]"

definition dollar_number :: "regex list" where
  "dollar_number = [Lit CHR ''$'', ws, Grp 1 number_rx2, ws]"

definition per_month :: "regex list" where
  "per_month =
     [lit_word ''/month'', seqs [lit_word ''/mo'', WordB], seqs [lit_word ''per'', ws1, lit_word ''month'']]"

definition parse_amount :: "string \<Rightarrow> bool \<Rightarrow> py_exception + rat" where
  "parse_amount amount_str multiply_k =
     (let cleaned = remove_commas amount_str
      in case py_float cleaned of
           None \<Rightarrow> Inl (ExceptionOf ''ValueError'')
         | Some a \<Rightarrow> Inr (if multiply_k then a * 1000 else a))"

text \<open>
  The amount of the lambdas that read the suffix from the match:
  \<open>_parse_amount(m.group(1), 'k' in m.group(0).lower() and 'k' not in m.group(1).lower())\<close>.
\<close>

definition amount_k_in_match :: "re_match \<Rightarrow> py_exception + rat" where
  "amount_k_in_match m =
     bind_exc (group_str m 1)
       (\<lambda>g1. parse_amount g1
                (is_substr ''k'' (lower (group0 m)) \<and> \<not> is_substr ''k'' (lower g1)))"

definition amount_k :: "re_match \<Rightarrow> py_exception + rat" where
  "amount_k m = bind_exc (group_str m 1) (\<lambda>g1. parse_amount g1 True)"

definition kind_of_group2 :: "re_match \<Rightarrow> py_exception + RevenueKind" where
  "kind_of_group2 m =
     bind_exc (group_str m 2) (\<lambda>g2. Inr (if upper g2 = ''MRR'' then Rd_MRR else Rd_ARR))"

definition with_kind ::
  "(re_match \<Rightarrow> py_exception + rat) \<Rightarrow> RevenueKind \<Rightarrow> rat \<Rightarrow> re_match \<Rightarrow>
   py_exception + (rat \<times> RevenueKind \<times> rat)" where
  "with_kind amt kind conf m = bind_exc (amt m) (\<lambda>a. Inr (a, kind, conf))"

definition with_group2_kind ::
  "(re_match \<Rightarrow> py_exception + rat) \<Rightarrow> rat \<Rightarrow> re_match \<Rightarrow>
   py_exception + (rat \<times> RevenueKind \<times> rat)" where
  "with_group2_kind amt conf m =
     bind_exc (amt m) (\<lambda>a. bind_exc (kind_of_group2 m) (\<lambda>k. Inr (a, k, conf)))"

text \<open>The last lambda: \<open>int(m.group(1).replace(',', '')) * float(m.group(2).replace(',', ''))\<close>.\<close>

definition customers_times_price :: "re_match \<Rightarrow> py_exception + rat" where
  "customers_times_price m =
     bind_exc (group_str m 1)
       (\<lambda>g1. case py_int_of_str (remove_commas g1) of
                None \<Rightarrow> Inl (ExceptionOf ''ValueError'')
              | Some n \<Rightarrow>
                  bind_exc (group_str m 2)
                    (\<lambda>g2. case py_float (remove_commas g2) of
                             None \<Rightarrow> Inl (ExceptionOf ''ValueError'')
                           | Some p \<Rightarrow> Inr (of_int n * p)))"

definition MRR_PATTERNS ::
  "(regex \<times> (re_match \<Rightarrow> py_exception + (rat \<times> RevenueKind \<times> rat))) list" where
  "MRR_PATTERNS =
     [(seqs (dollar_number @ [Opt (Cls ''kK''), ws, Grp 2 (alts [lit_word ''MRR'', lit_word ''ARR''])]),
       with_group2_kind amount_k_in_match (95 / 100)),
      (seqs (dollar_number @ [Cls ''kK'', ws, Grp 2 (alts [lit_word ''MRR'', lit_word ''ARR''])]),
       with_group2_kind amount_k (95 / 100)),
      (seqs (dollar_number @ [Opt (Cls ''kK''), ws, alts per_month]),
       with_kind amount_k_in_match Rd_MONTHLY (90 / 100)),
      (seqs [Grp 1 number_rx2, ws, Cls ''kK'', ws, alts per_month],
       with_kind amount_k Rd_MONTHLY (75 / 100)),
      (seqs (dollar_number @ [Opt (Cls ''kK''), ws, Opt (seqs [lit_word ''monthly'', ws1]),
                              lit_word ''revenue'']),
       with_kind amount_k_in_match Rd_REVENUE (80 / 100)),
      (seqs ([alts [lit_word ''hit'', lit_word ''reached'', lit_word ''crossed'', lit_word ''passed''],
              ws1] @ dollar_number @ [Opt (Cls ''kK'')]),
       with_kind amount_k_in_match Rd_UNKNOWN (70 / 100)),
      (seqs ([lit_word ''making'', ws1] @ dollar_number @
             [Opt (Cls ''kK''), ws, Opt (alts (per_month @ [lit_word ''monthly'']))]),
       with_kind amount_k_in_match Rd_MONTHLY (75 / 100)),
      (seqs [Grp 1 (Rep1 digit), ws1, lit_word ''paying'', ws1, lit_word ''customer'',
             Opt (Lit CHR ''s''), ws1, Opt (seqs [lit_word ''at'', ws1]), Lit CHR ''$'', ws,
             Grp 2 number_rx2],
       with_kind customers_times_price Rd_MRR (65 / 100))]"

text \<open>The block of \<open>parse\<close> that reads the context of a match of unknown kind.\<close>

definition context_boost :: "string \<Rightarrow> RevenueKind \<Rightarrow> rat \<Rightarrow> RevenueKind \<times> rat" where
  "context_boost text_lower rev_type conf =
     (if rev_type = Rd_UNKNOWN then
        (if is_substr ''mrr'' text_lower then (Rd_MRR, conf + 1 / 10)
         else if is_substr ''arr'' text_lower then (Rd_ARR, conf + 1 / 10)
         else if list_ex (\<lambda>kw. is_substr kw text_lower) [''month'', ''monthly'', ''/mo'']
           then (Rd_MONTHLY, conf + 5 / 100)
         else (rev_type, conf))
      else (rev_type, conf))"

definition candidate :: "string \<Rightarrow> re_match \<Rightarrow> rat \<Rightarrow> RevenueKind \<Rightarrow> rat \<Rightarrow> RevenueData" where
  "candidate text_lower m a rev_type conf =
     \<lparr>rd_amount = a, rd_type = fst (context_boost text_lower rev_type conf),
      raw_text = group0 m,
      rd_confidence = min (snd (context_boost text_lower rev_type conf)) 1\<rparr>"

definition mrr_matches ::
  "string \<Rightarrow> ((re_match \<Rightarrow> py_exception + (rat \<times> RevenueKind \<times> rat)) \<times> re_match) list" where
  "mrr_matches text =
     concat (map (\<lambda>(pattern, extractor). map (\<lambda>m. (extractor, m)) (finditer pattern text True))
                 MRR_PATTERNS)"

text \<open>
  The nested iteration of \<open>parse\<close>. \<open>ValueError\<close> and \<open>IndexError\<close> are caught and the
  match is skipped; any other exception leaves \<open>parse\<close>.
\<close>

fun parse_loop ::
  "string \<Rightarrow> ((re_match \<Rightarrow> py_exception + (rat \<times> RevenueKind \<times> rat)) \<times> re_match) list \<Rightarrow>
   RevenueData list \<Rightarrow> py_exception + RevenueData list" where
  "parse_loop text_lower [] results = Inr results"
| "parse_loop text_lower ((extractor, m) # rest) results =
     (case extractor m of
        Inl e \<Rightarrow>
          if e = ExceptionOf ''ValueError'' \<or> e = ExceptionOf ''IndexError''
          then parse_loop text_lower rest results
          else Inl e
      | Inr (a, rev_type, conf) \<Rightarrow>
          if a < 100 then parse_loop text_lower rest results
          else parse_loop text_lower rest (results @ [candidate text_lower m a rev_type conf]))"

definition is_duplicate :: "RevenueData list \<Rightarrow> RevenueData \<Rightarrow> bool" where
  "is_duplicate unique result =
     list_ex (\<lambda>existing. rd_amount existing > 0 \<and>
                \<bar>rd_amount result - rd_amount existing\<bar> / rd_amount existing < 1 / 10) unique"

definition deduplicate :: "RevenueData list \<Rightarrow> RevenueData list" where
  "deduplicate results =
     (if length results \<le> 1 then results
      else foldl (\<lambda>unique result. if is_duplicate unique result then unique else unique @ [result])
             [] (sort_key (\<lambda>x. - rd_confidence x) results))"

definition parse :: "string \<Rightarrow> py_exception + RevenueData list" where
  "parse text =
     bind_exc (parse_loop (lower text) (mrr_matches text) [])
       (\<lambda>results. Inr (sort_key (\<lambda>x. - rd_confidence x) (deduplicate results)))"

definition get_best_mrr :: "string \<Rightarrow> py_exception + RevenueData option" where
  "get_best_mrr text =
     bind_exc (parse text)
       (\<lambda>results.
          case results of
            [] \<Rightarrow> Inr None
          | r0 # _ \<Rightarrow>
              (case filter (\<lambda>r. rd_type r = Rd_MRR) results of
                 r # _ \<Rightarrow> Inr (Some r)
               | [] \<Rightarrow>
                   (case filter (\<lambda>r. rd_type r = Rd_MONTHLY) results of
                      r # _ \<Rightarrow> Inr (Some r)
                    | [] \<Rightarrow> Inr (Some r0))))"
section \<open>extractors/urls.py\<close>

text \<open>
  \<open>URLExtractor.extract\<close> and \<open>extract_all\<close> are \<open>extract_products\<close> and
  \<open>extract_all_products\<close> here.
\<close>

record ExtractedProduct =
  product_url :: string
  product_name :: "string option"
  product_domain :: string
  is_valid_product :: bool

definition EXCLUDED_DOMAINS :: "string list" where
  "EXCLUDED_DOMAINS =
     [''twitter.com'', ''x.com'', ''t.co'', ''pic.twitter.com'',
      ''facebook.com'', ''fb.com'', ''instagram.com'', ''linkedin.com'',
      ''tiktok.com'', ''youtube.com'', ''youtu.be'', ''reddit.com'',
      ''discord.com'', ''discord.gg'', ''threads.net'',
      ''google.com'', ''goo.gl'', ''bit.ly'', ''bitly.com'',
      ''medium.com'', ''substack.com'', ''notion.so'', ''notion.site'',
      ''github.com'', ''gitlab.com'', ''stackoverflow.com'',
      ''gmail.com'', ''outlook.com'', ''slack.com'', ''zoom.us'',
      ''ow.ly'', ''tinyurl.com'', ''rebrand.ly'', ''short.io'',
      ''is.gd'', ''v.gd'', ''cutt.ly'', ''shorturl.at'',
      ''wikipedia.org'', ''amazon.com'', ''ebay.com'']"

definition PRODUCT_TLDS :: "string list" where
  "PRODUCT_TLDS = [''.com'', ''.io'', ''.co'', ''.app'', ''.dev'', ''.ai'', ''.so'', ''.me'']"

definition PRODUCT_KEYWORDS :: "string list" where
  "PRODUCT_KEYWORDS =
     [''app'', ''dashboard'', ''pricing'', ''demo'', ''beta'',
      ''saas'', ''tool'', ''software'', ''platform'', ''service'']"

text \<open>The URL pattern \<open>https?://[^\s<>"{}|\\^`\[\]]+\<close>, matched without flags.\<close>

definition url_pattern :: regex where
  "url_pattern =
     seqs [lit_word ''http'', Opt (Lit CHR ''s''), lit_word ''://'',
           Rep1 (NCls (whitespace @
             [CHR ''<'', CHR ''>'', CHR 0x22, CHR ''{'', CHR ''}'', CHR ''|'', CHR 0x5C,
              CHR ''^'', CHR 0x60, CHR ''['', CHR '']'']))]"

text \<open>\<open>s.rstrip(chars)\<close>.\<close>

definition rstrip :: "string \<Rightarrow> string \<Rightarrow> string" where
  "rstrip s chars = rev (dropWhile (\<lambda>c. c \<in> set chars) (rev s))"

definition extract_urls_from_text :: "string \<Rightarrow> string list" where
  "extract_urls_from_text text =
     filter (\<lambda>url. url \<noteq> [])
       (map (\<lambda>m. rstrip (group0 m) [CHR ''.'', CHR '','', CHR '';'', CHR '':'', CHR ''!'', CHR ''?'',
                                     CHR '')'', CHR 0x27, CHR 0x22])
            (finditer url_pattern text False))"

text \<open>\<open>s.split('.')\<close> and \<open>s.title()\<close>.\<close>

fun split_dot :: "string \<Rightarrow> string list" where
  "split_dot [] = [[]]"
| "split_dot (c # cs) =
     (if c = CHR ''.'' then [] # split_dot cs
      else (case split_dot cs of p # ps \<Rightarrow> (c # p) # ps | [] \<Rightarrow> [[c]]))"

definition is_alpha :: "char \<Rightarrow> bool" where
  "is_alpha c = (c \<in> set (ascii_lower @ ascii_upper))"

fun title_from :: "bool \<Rightarrow> string \<Rightarrow> string" where
  "title_from prev_cased [] = []"
| "title_from prev_cased (c # cs) =
     (if is_alpha c then (if prev_cased then lower_char c else upper_char c) # title_from True cs
      else c # title_from False cs)"

definition title :: "string \<Rightarrow> string" where
  "title s = title_from False s"

definition is_likely_product :: "string \<Rightarrow> string \<Rightarrow> string \<Rightarrow> bool" where
  "is_likely_product url domain path =
     (let url_lower = lower url;
          has_product_tld = list_ex (\<lambda>tld. endswith domain tld) PRODUCT_TLDS;
          has_product_keyword = list_ex (\<lambda>kw. is_substr kw url_lower) PRODUCT_KEYWORDS;
          base_domain = (case split_dot domain of p # _ \<Rightarrow> p | [] \<Rightarrow> []);
          is_short_domain = (length base_domain \<le> 15);
          product_paths = [''/pricing'', ''/demo'', ''/features'', ''/about'', ''/blog''];
          has_product_path = list_ex (\<lambda>p. is_substr p (lower path)) product_paths;
          score = (if has_product_tld then 2 else 0) + (if has_product_keyword then 2 else 0) +
                  (if is_short_domain then 1 else 0) + (if has_product_path then 1 else 0) +
                  (if endswith domain ''.ai'' \<or> endswith domain ''.io'' then 1 else (0::nat))
      in score \<ge> 2)"

definition extract_name_from_domain :: "string \<Rightarrow> string" where
  "extract_name_from_domain domain =
     (let parts = split_dot domain;
          name = (if length parts \<ge> 2 then (case parts of p # _ \<Rightarrow> p | [] \<Rightarrow> []) else domain)
      in title name)"

text \<open>
  \<open>urllib.parse.urlparse\<close> belongs to the standard library: the extractor takes it as
  a parameter that gives the \<open>netloc\<close> and the \<open>path\<close> of a URL, or \<open>None\<close> when it
  raises (\<open>_analyze_url\<close> catches every \<open>Exception\<close> and returns \<open>None\<close>).
\<close>

type_synonym url_parser = "string \<Rightarrow> (string \<times> string) option"

definition domain_of :: "string \<Rightarrow> string" where
  "domain_of netloc = (let domain = lower netloc in if startswith domain ''www.'' then drop 4 domain else domain)"

definition is_excluded :: "string \<Rightarrow> bool" where
  "is_excluded domain = list_ex (\<lambda>excluded. is_substr excluded domain) EXCLUDED_DOMAINS"

definition analyze_url :: "url_parser \<Rightarrow> string \<Rightarrow> ExtractedProduct option" where
  "analyze_url urlparse url =
     (case urlparse url of
        None \<Rightarrow> None
      | Some (netloc, path) \<Rightarrow>
          let domain = domain_of netloc
          in if is_excluded domain then
               Some \<lparr>product_url = url, product_name = None, product_domain = domain,
                      is_valid_product = False\<rparr>
             else
               let is_product = is_likely_product url domain path;
                   name = extract_name_from_domain domain
               in Some \<lparr>product_url = url, product_name = Some name, product_domain = domain,
                        is_valid_product = is_product\<rparr>)"

text \<open>
  The candidates: the set \<open>all_urls\<close> of the attached URLs and the URLs found in the
  text. A Python set has no fixed iteration order; the list without duplicates stands
  for one of them.
\<close>

definition all_urls :: "string \<Rightarrow> string list option \<Rightarrow> string list" where
  "all_urls text urls =
     remdups ((case urls of None \<Rightarrow> [] | Some us \<Rightarrow> us) @ extract_urls_from_text text)"

definition extract_products :: "url_parser \<Rightarrow> string \<Rightarrow> string list option \<Rightarrow> ExtractedProduct list" where
  "extract_products urlparse text urls =
     filter is_valid_product (List.map_filter (analyze_url urlparse) (all_urls text urls))"

definition extract_all_products :: "url_parser \<Rightarrow> string \<Rightarrow> string list option \<Rightarrow> ExtractedProduct list" where
  "extract_all_products urlparse text urls =
     List.map_filter (analyze_url urlparse) (all_urls text urls)"

text \<open>
  A parser for URLs of the form \<open>scheme://netloc/path?query#fragment\<close>, as
  \<open>urlparse\<close> splits them; a \<open>netloc\<close> with one bracket only is the \<open>ValueError\<close>.
\<close>

definition plain_urlparse :: url_parser where
  "plain_urlparse url =
     (let scheme = takeWhile (\<lambda>c. c \<noteq> CHR '':'') url;
          after = (if scheme \<noteq> [] \<and> length scheme < length url \<and> is_alpha (hd scheme) \<and>
                      list_all (\<lambda>c. is_alpha c \<or> c \<in> set (digit_chars @ ''+-.'')) scheme
                   then drop (Suc (length scheme)) url else url)
      in if startswith after ''//'' then
           (let r = drop 2 after;
                netloc = takeWhile (\<lambda>c. c \<notin> set ''/?#'') r;
                path = takeWhile (\<lambda>c. c \<notin> set ''?#'') (drop (length netloc) r)
            in if (CHR ''['' \<in> set netloc) \<noteq> (CHR '']'' \<in> set netloc) then None
               else Some (netloc, path))
         else Some ([], takeWhile (\<lambda>c. c \<notin> set ''?#'') after))"

text \<open>Concrete results of the extractors used below.\<close>

definition arr_120k :: RevenueData where
  "arr_120k = \<lparr>rd_amount = 120000, rd_type = Rd_ARR, raw_text = ''$120K ARR'', rd_confidence = 95 / 100\<rparr>"

definition twitter_url :: string where
  "twitter_url = ''https://twitter.com/someone''"




definition twitter_product :: ExtractedProduct where
  "twitter_product =
     \<lparr>product_url = twitter_url, product_name = None, product_domain = ''twitter.com'',
      is_valid_product = False\<rparr>"

section \<open>Scoring: bounds and totality\<close>







text \<open>
  C10. When \<open>impressions\<close> is zero the engagement rate is defined and equals \<open>0\<close>: the
  guard returns before the division, so the growth component and \<open>score_idea\<close> return a
  result and no \<open>ZeroDivisionError\<close> is raised.
\<close>

theorem zero_impressions_total:
  assumes "impressions idea = 0"
  shows "engagement_rate idea = Inr 0 \<and>
         (\<exists>g. score_growth cfg idea = Inr g) \<and>
         (\<exists>r. score_idea cfg idea = Inr r)"
proof -
  have e: "engagement_rate idea = Inr 0"
    using assms by (simp add: engagement_rate_def)
  have g: "\<exists>g. score_growth cfg idea = Inr g"
    by (simp add: score_growth_def e Let_def)
  then obtain g0 where g0: "score_growth cfg idea = Inr g0" by blast
  have "\<exists>r. score_idea cfg idea = Inr r"
    by (simp add: score_idea_def g0 Let_def)
  with e g show ?thesis by blast
qed

theorem zero_impressions_total_witness:
  "impressions plain_idea = 0 \<and> engagement_rate plain_idea = Inr 0 \<and>
   score_growth default_scoring plain_idea = Inr 15 \<and>
   (\<exists>r. score_idea default_scoring plain_idea = Inr r)"
proof -
  have h: "impressions plain_idea = 0" by (simp add: plain_idea_def)
  have g: "score_growth default_scoring plain_idea = Inr 15"
    by (simp add: score_growth_def engagement_rate_def plain_idea_def default_scoring_def Let_def)
  show ?thesis
    using zero_impressions_total [OF h, of default_scoring] h g by simp
qed

text \<open>
  C9. \<open>has_data\<close> reads the organic, paid and social shares and the estimated visits
  only: it does not change with the referral and direct shares. So an idea whose organic,
  paid and social shares are zero and that has no estimated visits gets the neutral
  traffic score \<open>10\<close>, whatever its referral and direct shares are.
\<close>

theorem traffic_neutral_ignores_referral_direct:
  assumes "organic_percent (traffic idea) = 0"
    and "paid_percent (traffic idea) = 0"
    and "social_percent (traffic idea) = 0"
    and "estimated_monthly_visits (traffic idea) = None"
  shows "score_traffic cfg idea = 10 \<and>
         has_data (traffic idea) = False \<and>
         has_data ((traffic idea)\<lparr>referral_percent := r, direct_percent := d\<rparr>) = False"
  using assms by (simp add: score_traffic_def has_data_def)

theorem traffic_neutral_ignores_referral_direct_witness:
  "referral_percent (traffic referral_idea) > 0 \<and> direct_percent (traffic referral_idea) > 0 \<and>
   score_traffic default_scoring referral_idea = 10 \<and>
   has_data (traffic referral_idea) = False"
proof -
  have t: "traffic referral_idea =
      no_traffic\<lparr>referral_percent := 40 / 100, direct_percent := 60 / 100\<rparr>"
    by (simp add: referral_idea_def)
  have h: "organic_percent (traffic referral_idea) = 0" "paid_percent (traffic referral_idea) = 0"
    "social_percent (traffic referral_idea) = 0"
    "estimated_monthly_visits (traffic referral_idea) = None"
    by (simp_all add: t no_traffic_def)
  have p: "referral_percent (traffic referral_idea) > 0 \<and> direct_percent (traffic referral_idea) > 0"
    by (simp add: t)
  show ?thesis
    using traffic_neutral_ignores_referral_direct [OF h, of default_scoring 0 0] p by simp
qed

text \<open>
  C5, as stated: the rule list with the fifth rule "monthly revenue below 5,000" fails
  on an idea whose revenue is zero, where the stated list answers \<open>MEDIUM\<close> and the code
  \<open>UNKNOWN\<close>.
\<close>

theorem replicability_zero_revenue_counterexample:
  "first_match replicability_rules_stated Rep_UNKNOWN (plain_idea\<lparr>reported_mrr := Some 0\<rparr>) = Rep_MEDIUM \<and>
   determine_replicability (plain_idea\<lparr>reported_mrr := Some 0\<rparr>) = Rep_UNKNOWN"
  by (simp add: replicability_rules_stated_def determine_replicability_def revenue_below_def
      plain_idea_def no_traffic_def)

text \<open>
  C5, amended. For every idea the verdict of \<open>determine_replicability\<close> is the first
  match of: paid share above 50% gives \<open>HIGH\<close>; paid and organic shares both above 20%
  give \<open>MEDIUM\<close>; organic share above 60% gives \<open>LOW\<close>; single-feature complexity gives
  \<open>HIGH\<close>; a monthly revenue that is present, not zero and below 5,000 gives \<open>MEDIUM\<close>;
  otherwise \<open>UNKNOWN\<close>.
\<close>

theorem replicability_first_match:
  "determine_replicability idea = first_match replicability_rules_amended Rep_UNKNOWN idea"
  by (simp add: replicability_rules_amended_def determine_replicability_def revenue_below_def
      revenue_nonzero_def Let_def split: option.splits)

section \<open>Acquisition manager: fallback and deduplication\<close>

lemma dedup_pass_distinct:
  "dedup_pass True ts seen = (ys, seen') \<Longrightarrow>
   distinct (map tweet_id ys) \<and> set (map tweet_id ys) \<inter> seen = {} \<and>
   seen' = seen \<union> set (map tweet_id ys)"
proof (induction ts arbitrary: seen ys seen')
  case Nil
  then show ?case by simp
next
  case (Cons t ts)
  show ?case
  proof (cases "tweet_id t \<in> seen")
    case True
    with Cons.prems have "dedup_pass True ts seen = (ys, seen')" by simp
    from Cons.IH [OF this] show ?thesis .
  next
    case False
    obtain zs s2 where r: "dedup_pass True ts (insert (tweet_id t) seen) = (zs, s2)"
      by (cases "dedup_pass True ts (insert (tweet_id t) seen)")
    with False Cons.prems have ys: "ys = t # zs" and s: "seen' = s2" by auto
    from Cons.IH [OF r] show ?thesis using False ys s by auto
  qed
qed

lemma queries_loop_distinct:
  "distinct (map tweet_id (yielded (queries_loop m env qs lpq True seen))) \<and>
   set (map tweet_id (yielded (queries_loop m env qs lpq True seen))) \<inter> seen = {}"
proof (induction qs arbitrary: m seen)
  case Nil
  show ?case by (simp add: yielded_def)
next
  case (Cons q qs)
  obtain ts en m' where s: "search m env q lpq None None = ((ts, en), m')"
    by (metis prod.exhaust)
  obtain ys seen' where d: "dedup_pass True ts seen = (ys, seen')"
    by (cases "dedup_pass True ts seen")
  note dd = dedup_pass_distinct [OF d]
  show ?case
  proof (cases "case en of Returned \<Rightarrow> True | Raised e \<Rightarrow> is_Exception e")
    case False
    then have "yielded (queries_loop m env (q # qs) lpq True seen) = ys"
      by (simp add: s d yielded_def)
    with dd show ?thesis by simp
  next
    case True
    obtain zs en' m'' where r: "queries_loop m' env qs lpq True seen' = ((zs, en'), m'')"
      by (metis prod.exhaust)
    have y: "yielded (queries_loop m env (q # qs) lpq True seen) = ys @ zs"
      using True by (simp add: s d r yielded_def)
    from Cons.IH [of m' seen'] r
    have z: "distinct (map tweet_id zs)" "set (map tweet_id zs) \<inter> seen' = {}"
      by (simp_all add: yielded_def)
    show ?thesis
      unfolding y using dd z by auto
  qed
qed

text \<open>
  C4. With deduplication enabled, the posts that \<open>search_multiple_queries\<close> yields over
  the whole run have pairwise different identifiers, for every manager, every behaviour
  of the backends and every list of queries.
\<close>

theorem search_multiple_queries_distinct:
  "distinct (map tweet_id (yielded (search_multiple_queries m env queries limit_per_query True)))"
  using queries_loop_distinct [of m env queries limit_per_query "{}"]
  by (simp add: search_multiple_queries_def)

theorem search_multiple_queries_distinct_witness:
  "yielded (search_multiple_queries two_scrapers no_backends [''q1'', ''q2''] 50 True) = [tweet1, tweet2] \<and>
   distinct (map tweet_id (yielded (search_multiple_queries two_scrapers no_backends [''q1'', ''q2''] 50 True)))"
proof -
  have "yielded (search_multiple_queries two_scrapers no_backends [''q1'', ''q2''] 50 True) = [tweet1, tweet2]"
    by (simp add: search_multiple_queries_def search_def two_scrapers_def failing_scraper_def
        working_scraper_def yielded_def tweet1_def tweet2_def tweet1_again_def)
  then show ?thesis
    using search_multiple_queries_distinct [of two_scrapers no_backends "[''q1'', ''q2'']" 50]
    by simp
qed

text \<open>
  C1, as stated, fails: the first adapter yields a post and then raises; the call does
  not end with that error but goes on to the second adapter, yields its posts and
  returns.
\<close>

theorem search_commit_counterexample:
  "scraper_search failing_scraper ''q'' 100 None None = ([tweet1], Raised (ExceptionOf ''rate limited'')) \<and>
   yielded (search two_scrapers no_backends ''q'' 100 None None) = [tweet1, tweet1_again, tweet2] \<and>
   outcome (search two_scrapers no_backends ''q'' 100 None None) = Returned"
  by (simp add: search_def two_scrapers_def failing_scraper_def working_scraper_def
      yielded_def outcome_def)

lemma yielded_simp: "yielded ((ts, en), m) = ts"
  by (simp add: yielded_def)

lemma outcome_simp: "outcome ((ts, en), m) = en"
  by (simp add: outcome_def)

lemma search_loop_raise:
  assumes "scraper_search s q l si u = (ts, Raised e)" and "is_Exception e"
  shows "yielded (search_loop (s # ss) q l si u le0 m) =
           ts @ yielded (search_loop ss q l si u (Some e) m) \<and>
         outcome (search_loop (s # ss) q l si u le0 m) =
           outcome (search_loop ss q l si u (Some e) m)"
proof -
  obtain ys en m' where r: "search_loop ss q l si u (Some e) m = ((ys, en), m')"
    by (metis prod.exhaust)
  show ?thesis
    using assms by (simp add: r yielded_simp outcome_simp)
qed

lemma search_loop_return:
  assumes "scraper_search s q l si u = (ts, Returned)"
  shows "yielded (search_loop (s # ss) q l si u le0 m) = ts \<and>
         outcome (search_loop (s # ss) q l si u le0 m) = Returned"
  using assms by (simp add: yielded_simp outcome_simp)

lemma search_loop_failing_prefix:
  assumes "\<forall>p\<in>set pre. \<exists>e. snd (scraper_search p q l si u) = Raised e \<and> is_Exception e"
    and "scraper_search s q l si u = (ts, Raised e)" and "is_Exception e"
  shows "yielded (search_loop (pre @ s # post) q l si u le0 m) =
           concat (map (\<lambda>p. fst (scraper_search p q l si u)) pre) @ ts @
           yielded (search_loop post q l si u (Some e) m) \<and>
         outcome (search_loop (pre @ s # post) q l si u le0 m) =
           outcome (search_loop post q l si u (Some e) m)"
  using assms(1)
proof (induction pre arbitrary: le0)
  case Nil
  show ?case
    using search_loop_raise [OF assms(2,3), of post le0 m] by simp
next
  case (Cons p pre)
  from Cons.prems obtain e' where e': "snd (scraper_search p q l si u) = Raised e'" "is_Exception e'"
    by auto
  then obtain ps where ps: "scraper_search p q l si u = (ps, Raised e')"
    by (cases "scraper_search p q l si u") auto
  from Cons.prems have "\<forall>p\<in>set pre. \<exists>e. snd (scraper_search p q l si u) = Raised e \<and> is_Exception e"
    by simp
  note ih = Cons.IH [OF this, of "Some e'"]
  note st = search_loop_raise [OF ps e'(2), of "pre @ s # post" le0 m]
  show ?case
    using ih st by (simp add: ps)
qed

text \<open>
  C1, amended. In an initialized manager, let an adapter's stream yield the posts \<open>ts\<close>
  and then raise an \<open>Exception\<close> \<open>e\<close>, every adapter before it having failed with an
  \<open>Exception\<close> too. Then the posts already yielded stay yielded and the call continues
  with the adapters after it: the call yields \<open>ts\<close> followed by what the search over the
  remaining adapters yields, and ends as that search ends. The error \<open>e\<close> reaches the
  caller only when no adapter is left; when the next adapter returns, its posts follow
  and the call returns.
\<close>

theorem search_falls_through:
  assumes "initialized m"
    and "scrapers m = pre @ s # post"
    and "\<forall>p\<in>set pre. \<exists>e. snd (scraper_search p q l si u) = Raised e \<and> is_Exception e"
    and "scraper_search s q l si u = (ts, Raised e)"
    and "is_Exception e"
  shows "yielded (search m env q l si u) =
           concat (map (\<lambda>p. fst (scraper_search p q l si u)) pre) @ ts @
           yielded (search_loop post q l si u (Some e) m) \<and>
         outcome (search m env q l si u) = outcome (search_loop post q l si u (Some e) m) \<and>
         (post = [] \<longrightarrow> outcome (search m env q l si u) = Raised e) \<and>
         (\<forall>n rest ns. post = n # rest \<and> scraper_search n q l si u = (ns, Returned) \<longrightarrow>
            yielded (search m env q l si u) =
              concat (map (\<lambda>p. fst (scraper_search p q l si u)) pre) @ ts @ ns \<and>
            outcome (search m env q l si u) = Returned)"
proof -
  have s: "search m env q l si u = search_loop (pre @ s # post) q l si u None m"
    using assms(1,2) by (simp add: search_def)
  note f = search_loop_failing_prefix [OF assms(3,4,5), of post None m]
  have a: "post = [] \<longrightarrow> outcome (search_loop post q l si u (Some e) m) = Raised e"
    by (simp add: outcome_def)
  have b: "\<forall>n rest ns. post = n # rest \<and> scraper_search n q l si u = (ns, Returned) \<longrightarrow>
      yielded (search_loop post q l si u (Some e) m) = ns \<and>
      outcome (search_loop post q l si u (Some e) m) = Returned"
  proof (intro allI impI)
    fix n rest ns
    assume h: "post = n # rest \<and> scraper_search n q l si u = (ns, Returned)"
    then have "scraper_search n q l si u = (ns, Returned)" by simp
    from search_loop_return [OF this, of rest "Some e" m] h
    show "yielded (search_loop post q l si u (Some e) m) = ns \<and>
      outcome (search_loop post q l si u (Some e) m) = Returned" by simp
  qed
  show ?thesis
    unfolding s using f a b by auto
qed

theorem search_falls_through_witness:
  "yielded (search three_scrapers no_backends ''q'' 100 None None) =
     [tweet1] @ [tweet3] @ [tweet1_again, tweet2] \<and>
   outcome (search three_scrapers no_backends ''q'' 100 None None) = Returned"
proof -
  have 1: "initialized three_scrapers" by (simp add: three_scrapers_def)
  have 2: "scrapers three_scrapers = [failing_scraper] @ timing_out_scraper # [working_scraper]"
    by (simp add: three_scrapers_def)
  have 3: "\<forall>p\<in>set [failing_scraper].
      \<exists>e. snd (scraper_search p ''q'' 100 None None) = Raised e \<and> is_Exception e"
    by (simp add: failing_scraper_def)
  have 4: "scraper_search timing_out_scraper ''q'' 100 None None =
      ([tweet3], Raised (ExceptionOf ''timeout''))"
    by (simp add: timing_out_scraper_def)
  have 5: "is_Exception (ExceptionOf ''timeout'')" by simp
  have 6: "scraper_search working_scraper ''q'' 100 None None = ([tweet1_again, tweet2], Returned)"
    by (simp add: working_scraper_def)
  have 7: "fst (scraper_search failing_scraper ''q'' 100 None None) = [tweet1]"
    by (simp add: failing_scraper_def)
  from search_falls_through [OF 1 2 3 4 5, of no_backends] 6 7
  show ?thesis by (simp add: yielded_simp outcome_simp)
qed

section \<open>Revenue extraction\<close>

text \<open>Runs of the extractors on concrete texts, evaluated with the code equations.\<close>

lemma extract_revenue_120k:
  "extract_revenue ''$120K ARR'' =
     Some \<lparr>raw_match = ''$120K ARR'', amount = 120000, revenue_type = ARR,
            confidence = 95 / 100, er_has_screenshot = False\<rparr>"
  by code_simp

lemma get_best_mrr_120k: "get_best_mrr ''$120K ARR'' = Inr (Some arr_120k)"
  by code_simp





text \<open>
  C8. On the text \<open>$120K ARR\<close> the revenue extractor returns the amount 120,000 with
  the kind \<open>ARR\<close>; the parser returns the same amount and kind, and its monthly
  equivalent is 10,000. For every result the monthly equivalent is the amount divided by
  12 when the kind is \<open>ARR\<close> and the amount itself otherwise.
\<close>

theorem arr_120k_monthly_equivalent:
  "extract_revenue ''$120K ARR'' =
     Some \<lparr>raw_match = ''$120K ARR'', amount = 120000, revenue_type = ARR,
            confidence = 95 / 100, er_has_screenshot = False\<rparr> \<and>
   get_best_mrr ''$120K ARR'' = Inr (Some arr_120k) \<and>
   rd_amount arr_120k = 120000 \<and> rd_type arr_120k = Rd_ARR \<and>
   monthly_equivalent arr_120k = 10000 \<and>
   (\<forall>r. monthly_equivalent r = (if rd_type r = Rd_ARR then rd_amount r / 12 else rd_amount r))"
  using extract_revenue_120k get_best_mrr_120k
  by (simp add: monthly_equivalent_def arr_120k_def)














section \<open>Reclassification of matches of unknown kind\<close>







section \<open>Product links\<close>

lemma startswith_refl: "startswith s s"
  by (induction s) auto

lemma is_substr_refl: "is_substr s s"
  by (cases s) (auto simp add: startswith_refl)

lemma member_is_excluded: "d \<in> set EXCLUDED_DOMAINS \<Longrightarrow> is_excluded d"
  unfolding is_excluded_def list_ex_iff using is_substr_refl by blast

lemma in_set_map_filter:
  "y \<in> set (List.map_filter f xs) \<longleftrightarrow> (\<exists>x\<in>set xs. f x = Some y)"
  by (induction xs) (auto split: option.splits)

lemma analyze_url_excluded:
  assumes "urlparse url = Some (netloc, path)" and "is_excluded (domain_of netloc)"
  shows "analyze_url urlparse url =
           Some \<lparr>product_url = url, product_name = None, product_domain = domain_of netloc,
                  is_valid_product = False\<rparr>"
  using assms by (simp add: analyze_url_def)

lemma analyze_url_url: "analyze_url urlparse u = Some p \<Longrightarrow> product_url p = u"
  by (auto simp add: analyze_url_def Let_def split: option.splits if_splits)

lemma twitter_candidate: "twitter_url \<in> set (all_urls [] (Some [twitter_url]))"
  by code_simp

lemma twitter_parsed: "plain_urlparse twitter_url = Some (''twitter.com'', ''/someone'')"
  by code_simp

lemma twitter_domain: "domain_of ''twitter.com'' = ''twitter.com'' \<and> ''twitter.com'' \<in> set EXCLUDED_DOMAINS"
  by code_simp

lemma twitter_extract: "extract_products plain_urlparse [] (Some [twitter_url]) = []"
  by code_simp

text \<open>
  C6, as stated, fails: \<open>extract\<close> keeps the valid products only. The attached URL
  \<open>https://twitter.com/someone\<close> has the excluded domain \<open>twitter.com\<close>; it is analysed
  to a record with the validity flag false, and the list that \<open>extract\<close> returns is
  empty.
\<close>

theorem excluded_url_counterexample:
  "twitter_url \<in> set (all_urls [] (Some [twitter_url])) \<and>
   plain_urlparse twitter_url = Some (''twitter.com'', ''/someone'') \<and>
   domain_of ''twitter.com'' \<in> set EXCLUDED_DOMAINS \<and>
   extract_products plain_urlparse [] (Some [twitter_url]) = []"
  using twitter_candidate twitter_parsed twitter_domain twitter_extract by simp

text \<open>
  C6, amended. For every text, every list of attached URLs and every behaviour of
  \<open>urlparse\<close>: a candidate URL whose lower-cased, www-stripped domain is in the exclusion
  set, or contains one of its entries, is left out of the list that \<open>extract\<close> returns,
  all of whose elements have the validity flag true; \<open>extract_all\<close> returns it, with the
  validity flag false.
\<close>

theorem excluded_url_only_in_extract_all:
  assumes "url \<in> set (all_urls text urls)"
    and "urlparse url = Some (netloc, path)"
    and "domain_of netloc \<in> set EXCLUDED_DOMAINS \<or> is_excluded (domain_of netloc)"
  shows "\<lparr>product_url = url, product_name = None, product_domain = domain_of netloc,
           is_valid_product = False\<rparr> \<in> set (extract_all_products urlparse text urls) \<and>
         (\<forall>p\<in>set (extract_products urlparse text urls). product_url p \<noteq> url \<and> is_valid_product p)"
proof -
  from assms(3) have ex: "is_excluded (domain_of netloc)"
    using member_is_excluded by blast
  note a = analyze_url_excluded [of urlparse url netloc path, OF assms(2) ex]
  have 1: "\<lparr>product_url = url, product_name = None, product_domain = domain_of netloc,
           is_valid_product = False\<rparr> \<in> set (extract_all_products urlparse text urls)"
    unfolding extract_all_products_def in_set_map_filter using assms(1) a by blast
  have 2: "product_url p \<noteq> url \<and> is_valid_product p"
    if "p \<in> set (extract_products urlparse text urls)" for p
  proof -
    from that obtain u where u: "analyze_url urlparse u = Some p" and v: "is_valid_product p"
      unfolding extract_products_def set_filter using in_set_map_filter [of p "analyze_url urlparse" "all_urls text urls"] by blast
    have "product_url p \<noteq> url"
    proof
      assume "product_url p = url"
      with analyze_url_url [OF u] have "u = url" by simp
      with u a have "p = \<lparr>product_url = url, product_name = None,
          product_domain = domain_of netloc, is_valid_product = False\<rparr>" by simp
      then have "\<not> is_valid_product p" by simp
      with v show False by simp
    qed
    with v show ?thesis by simp
  qed
  from 1 2 show ?thesis by blast
qed

theorem excluded_url_only_in_extract_all_witness:
  "twitter_product \<in> set (extract_all_products plain_urlparse [] (Some [twitter_url])) \<and>
   list_all (\<lambda>p. product_url p \<noteq> twitter_url \<and> is_valid_product p)
     (extract_products plain_urlparse [] (Some [twitter_url]))"
proof -
  have 3: "domain_of ''twitter.com'' \<in> set EXCLUDED_DOMAINS \<or> is_excluded (domain_of ''twitter.com'')"
    using twitter_domain by simp
  from excluded_url_only_in_extract_all
      [of twitter_url "[]" "Some [twitter_url]" plain_urlparse "''twitter.com''" "''/someone''",
       OF twitter_candidate twitter_parsed 3] twitter_domain
  show ?thesis by (simp add: twitter_product_def list_all_iff)
qed

end
